theory Spec2Isabelle
  imports Main
begin

section \<open>Python values, errors and the network\<close>

text \<open>
  The program works on parsed JSON. A parsed JSON document is a Python value: \<open>None\<close>,
  a bool, an int, a str, a list or a dict with str keys. \<open>JNull\<close> is Python's
  \<open>None\<close>. A dict is an association list whose keys are distinct; lookup takes the
  first entry of a key. Floating point numbers are not represented. A \<open>char\<close> stands
  for the code point of the same number (0 to 255); text with higher code points is not
  represented.
\<close>

datatype json = JNull | JBool bool | JInt int | JStr string | JList "json list"
  | JObj "(string \<times> json) list"

text \<open>The exceptions the code can raise. \<open>ValueError\<close> carries its message.\<close>

datatype pyerr = ValueError string | AttributeError | TypeError | IndexError | KeyError
  | JSONDecodeError

text \<open>Sequencing of computations that may raise: the first exception wins.\<close>

definition and_then :: "pyerr + 'a \<Rightarrow> ('a \<Rightarrow> pyerr + 'b) \<Rightarrow> pyerr + 'b" where
  "and_then m f = (case m of Inl e \<Rightarrow> Inl e | Inr x \<Rightarrow> f x)"

text \<open>\<open>d.get(k)\<close> and \<open>d.get(k, default)\<close>: only a dict has the method.\<close>

definition py_get_default :: "json \<Rightarrow> string \<Rightarrow> json \<Rightarrow> pyerr + json" where
  "py_get_default d k dflt =
     (case d of
        JObj kvs \<Rightarrow> Inr (case map_of kvs k of None \<Rightarrow> dflt | Some v \<Rightarrow> v)
      | _ \<Rightarrow> Inl AttributeError)"

definition py_get :: "json \<Rightarrow> string \<Rightarrow> pyerr + json" where
  "py_get d k = py_get_default d k JNull"

text \<open>
  \<open>for x in v\<close>: a list gives its elements, a dict its keys, a str its characters as
  one-character strs; nothing else is iterable.
\<close>

definition py_iter :: "json \<Rightarrow> pyerr + json list" where
  "py_iter v =
     (case v of
        JList xs \<Rightarrow> Inr xs
      | JObj kvs \<Rightarrow> Inr (map (\<lambda>kv. JStr (fst kv)) kvs)
      | JStr s \<Rightarrow> Inr (map (\<lambda>c. JStr [c]) s)
      | _ \<Rightarrow> Inl TypeError)"

text \<open>Truth value of a Python value, as \<open>if v\<close> and \<open>a or b\<close> test it.\<close>

fun py_truthy :: "json \<Rightarrow> bool" where
  "py_truthy JNull = False"
| "py_truthy (JBool b) = b"
| "py_truthy (JInt i) = (i \<noteq> 0)"
| "py_truthy (JStr s) = (s \<noteq> [])"
| "py_truthy (JList xs) = (xs \<noteq> [])"
| "py_truthy (JObj kvs) = (kvs \<noteq> [])"

text \<open>
  \<open>a == b\<close>. \<open>True\<close> equals 1 and \<open>False\<close> equals 0; lists compare element by
  element; dicts compare as maps, regardless of the order of their keys.
\<close>

fun py_eq :: "json \<Rightarrow> json \<Rightarrow> bool" where
  "py_eq JNull JNull = True"
| "py_eq (JBool a) (JBool b) = (a = b)"
| "py_eq (JBool a) (JInt j) = ((if a then 1 else 0) = j)"
| "py_eq (JInt i) (JBool b) = (i = (if b then 1 else 0))"
| "py_eq (JInt i) (JInt j) = (i = j)"
| "py_eq (JStr s) (JStr t) = (s = t)"
| "py_eq (JList xs) (JList ys) = list_all2 py_eq xs ys"
| "py_eq (JObj kvs) (JObj kvs') =
     (list_all (\<lambda>k. k \<in> set (map fst kvs')) (map fst kvs) \<and>
      list_all (\<lambda>k. k \<in> set (map fst kvs)) (map fst kvs') \<and>
      list_all (\<lambda>(k, v). case map_of kvs' k of None \<Rightarrow> False | Some v' \<Rightarrow> py_eq v v') kvs)"
| "py_eq _ _ = False"

text \<open>\<open>acc + v\<close> for an int \<open>acc\<close>, as \<open>sum\<close> computes it: ints and bools add.\<close>

definition py_add_int :: "int \<Rightarrow> json \<Rightarrow> pyerr + int" where
  "py_add_int acc v =
     (case v of
        JInt i \<Rightarrow> Inr (acc + i)
      | JBool b \<Rightarrow> Inr (acc + (if b then 1 else 0))
      | _ \<Rightarrow> Inl TypeError)"

text \<open>
  The network. Everything the program does to the outside is an event: an HTTP GET of a
  URL, a line printed, a pause of \<open>time.sleep(0.5)\<close>. The server answers a GET with a
  response that may depend on all earlier events, so that a resource can change between
  two requests. A response has a status code and a body; \<open>body = None\<close> is a body that
  is not JSON, on which \<open>response.json()\<close> raises. A request that gets no response at
  all (no connection) is not represented.
\<close>

datatype event = Get string | Print string | Sleep

record response =
  status_code :: int
  body :: "json option"

type_synonym trace = "event list"
type_synonym server = "trace \<Rightarrow> string \<Rightarrow> response"
type_synonym 'a io = "trace \<Rightarrow> (pyerr + 'a) \<times> trace"

definition io_return :: "'a \<Rightarrow> 'a io" where
  "io_return x = (\<lambda>tr. (Inr x, tr))"

definition io_raise :: "pyerr \<Rightarrow> 'a io" where
  "io_raise e = (\<lambda>tr. (Inl e, tr))"

definition io_lift :: "pyerr + 'a \<Rightarrow> 'a io" where
  "io_lift r = (\<lambda>tr. (r, tr))"

definition io_bind :: "'a io \<Rightarrow> ('a \<Rightarrow> 'b io) \<Rightarrow> 'b io" where
  "io_bind m f =
     (\<lambda>tr. case m tr of (Inl e, tr') \<Rightarrow> (Inl e, tr') | (Inr x, tr') \<Rightarrow> f x tr')"

definition requests_get :: "server \<Rightarrow> string \<Rightarrow> response io" where
  "requests_get srv url = (\<lambda>tr. (Inr (srv tr url), tr @ [Get url]))"

definition response_json :: "response \<Rightarrow> pyerr + json" where
  "response_json r = (case body r of None \<Rightarrow> Inl JSONDecodeError | Some j \<Rightarrow> Inr j)"

section \<open>Contribution aggregator: \<open>get_repository_contributors\<close>\<close>

text \<open>
  The dict built for each contributor. The key \<open>volume\<close> is only set when a statistics
  entry matches: \<open>volume = None\<close> is the key being absent.
\<close>

record contributor =
  login :: json
  contributions :: json
  contributed_dates :: "json list"
  volume :: "int option"

definition contributors_url :: "string \<Rightarrow> string \<Rightarrow> string" where
  "contributors_url owner repo =
     ''https://api.github.com/repos/'' @ owner @ ''/'' @ repo @ ''/contributors''"

definition contributor_stats_url :: "string \<Rightarrow> string \<Rightarrow> string" where
  "contributor_stats_url owner repo =
     ''https://api.github.com/repos/'' @ owner @ ''/'' @ repo @ ''/stats/contributors''"

text \<open>\<open>sum(week.get(k, 0) for week in weeks)\<close>, from the start value 0.\<close>

fun sum_weeks :: "string \<Rightarrow> int \<Rightarrow> json list \<Rightarrow> pyerr + int" where
  "sum_weeks k acc [] = Inr acc"
| "sum_weeks k acc (week # weeks) =
     and_then (py_get_default week k (JInt 0)) (\<lambda>v.
     and_then (py_add_int acc v) (\<lambda>acc'.
     sum_weeks k acc' weeks))"

text \<open>\<open>[week.get("w") for week in weeks if week.get("a") or week.get("d")]\<close>\<close>

fun active_weeks :: "json list \<Rightarrow> pyerr + json list" where
  "active_weeks [] = Inr []"
| "active_weeks (week # weeks) =
     and_then (py_get week ''a'') (\<lambda>a.
     and_then (if py_truthy a then Inr True
               else and_then (py_get week ''d'') (\<lambda>d. Inr (py_truthy d))) (\<lambda>active.
     if active
     then and_then (py_get week ''w'') (\<lambda>w.
          and_then (active_weeks weeks) (\<lambda>ds. Inr (w # ds)))
     else active_weeks weeks))"

text \<open>
  The inner loop \<open>for stats in stats_data\<close>: the first entry whose author login equals
  the contributor's login sets the volume and the dates, and the loop breaks.
\<close>

fun stats_loop :: "json list \<Rightarrow> contributor \<Rightarrow> pyerr + contributor" where
  "stats_loop [] c = Inr c"
| "stats_loop (stats # rest) c =
     and_then (py_get stats ''author'') (\<lambda>author.
     and_then (py_get author ''login'') (\<lambda>l.
     if py_eq l (login c)
     then and_then (py_get stats ''weeks'') (\<lambda>weeks.
          and_then (py_iter weeks) (\<lambda>ws.
          and_then (sum_weeks ''a'' 0 ws) (\<lambda>total_additions.
          and_then (sum_weeks ''d'' 0 ws) (\<lambda>total_deletions.
          and_then (active_weeks ws) (\<lambda>ds.
          Inr (c\<lparr>volume := Some (total_additions + total_deletions),
                 contributed_dates := ds\<rparr>))))))
     else stats_loop rest c))"

text \<open>The body of the outer loop, up to the \<open>append\<close>.\<close>

definition process_contributor :: "server \<Rightarrow> string \<Rightarrow> string \<Rightarrow> json \<Rightarrow> contributor io" where
  "process_contributor srv owner repo contributor_data =
     io_bind (io_lift (py_get contributor_data ''login'')) (\<lambda>l.
     io_bind (io_lift (py_get contributor_data ''contributions'')) (\<lambda>n.
     io_bind (requests_get srv (contributor_stats_url owner repo)) (\<lambda>stats_response.
     if status_code stats_response = 200
     then io_bind (io_lift (response_json stats_response)) (\<lambda>stats_data.
          io_bind (io_lift (py_iter stats_data)) (\<lambda>entries.
          io_lift (stats_loop entries
            \<lparr>login = l, contributions = n, contributed_dates = [], volume = None\<rparr>)))
     else io_return
            \<lparr>login = l, contributions = n, contributed_dates = [], volume = None\<rparr>)))"

fun contributors_loop ::
  "server \<Rightarrow> string \<Rightarrow> string \<Rightarrow> json list \<Rightarrow> contributor list \<Rightarrow> contributor list io" where
  "contributors_loop srv owner repo [] contributors = io_return contributors"
| "contributors_loop srv owner repo (contributor_data # rest) contributors =
     io_bind (process_contributor srv owner repo contributor_data) (\<lambda>c.
     contributors_loop srv owner repo rest (contributors @ [c]))"

definition get_repository_contributors :: "server \<Rightarrow> string \<Rightarrow> string \<Rightarrow> contributor list io" where
  "get_repository_contributors srv owner repo =
     io_bind (requests_get srv (contributors_url owner repo)) (\<lambda>response.
     if status_code response = 200
     then io_bind (io_lift (response_json response)) (\<lambda>contributors_data.
          io_bind (io_lift (py_iter contributors_data)) (\<lambda>cds.
          contributors_loop srv owner repo cds []))
     else io_return [])"

text \<open>
  What the theorems on the aggregator speak of: the number a week records under a key
  (0 when the key is absent), the author login of a statistics entry, and a week whose
  counts are numbers.
\<close>

definition week_count :: "string \<Rightarrow> json \<Rightarrow> int" where
  "week_count k week =
     (case py_get_default week k (JInt 0) of
        Inr (JInt i) \<Rightarrow> i
      | Inr (JBool b) \<Rightarrow> (if b then 1 else 0)
      | _ \<Rightarrow> 0)"

definition week_start :: "json \<Rightarrow> json" where
  "week_start week = (case py_get week ''w'' of Inr w \<Rightarrow> w | Inl _ \<Rightarrow> JNull)"

definition count_ok :: "string \<Rightarrow> json \<Rightarrow> bool" where
  "count_ok k week =
     (case py_get_default week k (JInt 0) of
        Inr (JInt i) \<Rightarrow> True
      | Inr (JBool b) \<Rightarrow> True
      | _ \<Rightarrow> False)"

definition week_ok :: "json \<Rightarrow> bool" where
  "week_ok week = (count_ok ''a'' week \<and> count_ok ''d'' week)"

definition author_login :: "json \<Rightarrow> pyerr + json" where
  "author_login stats = and_then (py_get stats ''author'') (\<lambda>author. py_get author ''login'')"

definition other_author :: "json \<Rightarrow> json \<Rightarrow> bool" where
  "other_author l stats = (case author_login stats of Inr l' \<Rightarrow> \<not> py_eq l' l | Inl _ \<Rightarrow> False)"

definition active_week :: "json \<Rightarrow> bool" where
  "active_week week = (week_count ''a'' week \<noteq> 0 \<or> week_count ''d'' week \<noteq> 0)"

definition same_entry :: "contributor \<Rightarrow> json \<Rightarrow> bool" where
  "same_entry c contributor_data =
     (py_get contributor_data ''login'' = Inr (login c) \<and>
      py_get contributor_data ''contributions'' = Inr (contributions c))"

text \<open>A repository with two contributors, one of them without statistics.\<close>

definition ann :: json where
  "ann = JObj [(''login'', JStr ''ann''), (''contributions'', JInt 7)]"

definition bob :: json where
  "bob = JObj [(''login'', JStr ''bob''), (''contributions'', JInt 2)]"

definition ann_weeks :: "json list" where
  "ann_weeks =
     [JObj [(''w'', JInt 100), (''a'', JInt 3), (''d'', JInt 1)],
      JObj [(''w'', JInt 200), (''a'', JInt 0), (''d'', JInt 0)],
      JObj [(''w'', JInt 300), (''a'', JInt 0), (''d'', JInt 5)]]"

definition ann_stats :: json where
  "ann_stats = JObj [(''author'', JObj [(''login'', JStr ''ann'')]), (''weeks'', JList ann_weeks)]"

definition repo_server :: server where
  "repo_server tr url =
     (if url = contributors_url ''o'' ''r''
      then \<lparr>status_code = 200, body = Some (JList [ann, bob])\<rparr>
      else if url = contributor_stats_url ''o'' ''r''
      then \<lparr>status_code = 200, body = Some (JList [ann_stats])\<rparr>
      else \<lparr>status_code = 404, body = None\<rparr>)"

definition down_server :: server where
  "down_server tr url = \<lparr>status_code = 503, body = None\<rparr>"

text \<open>The same repository, with a second statistics entry that has no author.\<close>

definition null_author_server :: server where
  "null_author_server tr url =
     (if url = contributors_url ''o'' ''r''
      then \<lparr>status_code = 200, body = Some (JList [ann, bob])\<rparr>
      else if url = contributor_stats_url ''o'' ''r''
      then \<lparr>status_code = 200,
            body = Some (JList [ann_stats, JObj [(''author'', JNull), (''weeks'', JList [])]])\<rparr>
      else \<lparr>status_code = 404, body = None\<rparr>)"



section \<open>Text: characters, \<open>str\<close>, \<open>repr\<close> and the ORCID pattern\<close>

definition code_point :: "char \<Rightarrow> nat" where
  "code_point c = of_char c"

text \<open>\<open>c.isupper()\<close> and \<open>c.islower()\<close> of one character, for the code points up to 255.\<close>

definition is_upper :: "char \<Rightarrow> bool" where
  "is_upper c =
     (let n = code_point c
      in (65 \<le> n \<and> n \<le> 90) \<or> (192 \<le> n \<and> n \<le> 214) \<or> (216 \<le> n \<and> n \<le> 222))"

definition is_lower :: "char \<Rightarrow> bool" where
  "is_lower c =
     (let n = code_point c
      in (97 \<le> n \<and> n \<le> 122) \<or> n = 170 \<or> n = 181 \<or> n = 186 \<or>
         (223 \<le> n \<and> n \<le> 246) \<or> (248 \<le> n \<and> n \<le> 255))"

text \<open>
  \<open>s.isupper()\<close>: at least one uppercase character and no lowercase one. On a string of
  one character it is \<open>is_upper\<close> of that character.
\<close>

definition str_isupper :: "string \<Rightarrow> bool" where
  "str_isupper s = (list_ex is_upper s \<and> \<not> list_ex is_lower s)"

text \<open>The classes \<open>\d\<close> and \<open>\w\<close> of a \<open>str\<close> pattern, for the code points up to 255.\<close>

definition is_digit :: "char \<Rightarrow> bool" where
  "is_digit c = (let n = code_point c in 48 \<le> n \<and> n \<le> 57)"

definition is_word :: "char \<Rightarrow> bool" where
  "is_word c =
     (let n = code_point c
      in (48 \<le> n \<and> n \<le> 57) \<or> (65 \<le> n \<and> n \<le> 90) \<or> n = 95 \<or> (97 \<le> n \<and> n \<le> 122) \<or>
         n = 170 \<or> n = 178 \<or> n = 179 \<or> n = 181 \<or> n = 185 \<or> n = 186 \<or>
         (188 \<le> n \<and> n \<le> 190) \<or> (192 \<le> n \<and> n \<le> 214) \<or> (216 \<le> n \<and> n \<le> 246) \<or>
         (248 \<le> n \<and> n \<le> 255))"

text \<open>
  \<open>repr\<close> of a str: double quotes when the text has a single quote and no double
  quote, single quotes otherwise; the quote and the backslash are escaped, tab, newline
  and carriage return are written \<open>\t\<close>, \<open>\n\<close>, \<open>\r\<close>, and any other character
  that is not printable is written \<open>\xNN\<close>.
\<close>

definition is_printable :: "char \<Rightarrow> bool" where
  "is_printable c =
     (let n = code_point c in (32 \<le> n \<and> n < 127) \<or> (161 \<le> n \<and> n \<noteq> 173))"

definition hex_digit :: "nat \<Rightarrow> char" where
  "hex_digit n = ''0123456789abcdef'' ! (n mod 16)"

definition repr_char :: "char \<Rightarrow> char \<Rightarrow> string" where
  "repr_char quote c =
     (if c = quote \<or> c = CHR 0x5C then [CHR 0x5C, c]
      else if c = CHR 0x09 then [CHR 0x5C, CHR ''t'']
      else if c = CHR 0x0A then [CHR 0x5C, CHR ''n'']
      else if c = CHR 0x0D then [CHR 0x5C, CHR ''r'']
      else if \<not> is_printable c
      then [CHR 0x5C, CHR ''x'', hex_digit (code_point c div 16), hex_digit (code_point c)]
      else [c])"

definition str_repr :: "string \<Rightarrow> string" where
  "str_repr s =
     (let quote = (if CHR 0x27 \<in> set s \<and> CHR 0x22 \<notin> set s then CHR 0x22 else CHR 0x27)
      in [quote] @ concat (map (repr_char quote) s) @ [quote])"

fun show_nat :: "nat \<Rightarrow> string" where
  "show_nat n =
     (if n < 10 then [''0123456789'' ! n]
      else show_nat (n div 10) @ [''0123456789'' ! (n mod 10)])"

definition show_int :: "int \<Rightarrow> string" where
  "show_int i = (if i < 0 then ''-'' @ show_nat (nat (- i)) else show_nat (nat i))"

fun join_with :: "string \<Rightarrow> string list \<Rightarrow> string" where
  "join_with sep [] = []"
| "join_with sep [x] = x"
| "join_with sep (x # y # ys) = x @ sep @ join_with sep (y # ys)"

fun py_repr :: "json \<Rightarrow> string" where
  "py_repr JNull = ''None''"
| "py_repr (JBool b) = (if b then ''True'' else ''False'')"
| "py_repr (JInt i) = show_int i"
| "py_repr (JStr s) = str_repr s"
| "py_repr (JList xs) = ''['' @ join_with '', '' (map py_repr xs) @ '']''"
| "py_repr (JObj kvs) =
     ''{'' @ join_with '', '' (map (\<lambda>(k, v). str_repr k @ '': '' @ py_repr v) kvs) @ ''}''"

text \<open>\<open>str(v)\<close>, also what an f-string writes for \<open>{v}\<close>: a str is itself.\<close>

definition py_str :: "json \<Rightarrow> string" where
  "py_str v = (case v of JStr s \<Rightarrow> s | _ \<Rightarrow> py_repr v)"

text \<open>
  The pattern \<open>\bhttps?://orcid\.org/\d{4}-\d{4}-\d{4}-\d{3}[0-9X]\b\<close>. Each piece takes
  the text still to be read and gives what is left after it, or \<open>None\<close> when it does
  not match. \<open>at_boundary prev s\<close> is \<open>\b\<close> at the position in front of \<open>s\<close>,
  \<open>prev\<close> telling whether the character in front of the position is a word character
  (\<open>False\<close> at the start of the text).
\<close>

fun lit :: "string \<Rightarrow> string \<Rightarrow> string option" where
  "lit [] s = Some s"
| "lit (p # ps) [] = None"
| "lit (p # ps) (c # cs) = (if p = c then lit ps cs else None)"

fun digits :: "nat \<Rightarrow> string \<Rightarrow> string option" where
  "digits 0 s = Some s"
| "digits (Suc n) [] = None"
| "digits (Suc n) (c # cs) = (if is_digit c then digits n cs else None)"

fun digit_or_X :: "string \<Rightarrow> string option" where
  "digit_or_X [] = None"
| "digit_or_X (c # cs) = (if is_digit c \<or> c = CHR ''X'' then Some cs else None)"

fun at_boundary :: "bool \<Rightarrow> string \<Rightarrow> bool" where
  "at_boundary prev [] = prev"
| "at_boundary prev (c # cs) = (prev \<noteq> is_word c)"

text \<open>
  The pattern from \<open>://\<close> on. \<open>fin\<close> is the test at its end: \<open>at_boundary True\<close> for
  the pattern of the code.
\<close>

definition pid_tail :: "(string \<Rightarrow> bool) \<Rightarrow> string \<Rightarrow> string option" where
  "pid_tail fin s0 =
     Option.bind (lit ''://orcid.org/'' s0) (\<lambda>s1.
     Option.bind (digits 4 s1) (\<lambda>s2.
     Option.bind (lit ''-'' s2) (\<lambda>s3.
     Option.bind (digits 4 s3) (\<lambda>s4.
     Option.bind (lit ''-'' s4) (\<lambda>s5.
     Option.bind (digits 4 s5) (\<lambda>s6.
     Option.bind (lit ''-'' s6) (\<lambda>s7.
     Option.bind (digits 3 s7) (\<lambda>s8.
     Option.bind (digit_or_X s8) (\<lambda>s9.
     if fin s9 then Some s9 else None)))))))))"

text \<open>\<open>https?\<close> and the rest: the \<open>s\<close> is taken when there is one, and given back when
  the rest does not match after it.\<close>

definition pid_here :: "(string \<Rightarrow> bool) \<Rightarrow> string \<Rightarrow> string option" where
  "pid_here fin s =
     Option.bind (lit ''http'' s) (\<lambda>s1.
     case Option.bind (lit ''s'' s1) (pid_tail fin) of
       Some rest \<Rightarrow> Some rest
     | None \<Rightarrow> pid_tail fin s1)"

definition orcid_regex :: "bool \<Rightarrow> string \<Rightarrow> string option" where
  "orcid_regex prev s = (if at_boundary prev s then pid_here (at_boundary True) s else None)"

text \<open>
  \<open>re.findall(orcid_regex, text)\<close>: the matches from left to right, the search
  resuming at the end of each match, one character further where there is none.
\<close>

function findall_orcid :: "bool \<Rightarrow> string \<Rightarrow> string list" where
  "findall_orcid prev [] = []"
| "findall_orcid prev (c # cs) =
     (case orcid_regex prev (c # cs) of
        Some rest \<Rightarrow>
          take (length (c # cs) - length rest) (c # cs) # findall_orcid True rest
      | None \<Rightarrow> findall_orcid (is_word c) cs)"
  by pat_completeness auto
termination
proof (relation "measure (\<lambda>(prev, s). length s)", goal_cases)
  case 1
  show ?case by simp
next
  case 2
  then show ?case by simp
next
  case (3 prev c cs rest)
  have lit_le: "lit p s = Some r \<Longrightarrow> length r \<le> length s" for p s r
    by (induction p s rule: lit.induct) (auto split: if_splits)
  have digits_le: "digits n s = Some r \<Longrightarrow> length r \<le> length s" for n s r
    by (induction n s rule: digits.induct) (auto split: if_splits)
  have last_le: "digit_or_X s = Some r \<Longrightarrow> length r \<le> length s" for s r
    by (cases s) (auto split: if_splits)
  have tail_le: "pid_tail fin s = Some r \<Longrightarrow> length r \<le> length s" for fin s r
    unfolding pid_tail_def
    by (auto simp: bind_eq_Some_conv split: if_splits
        dest!: lit_le digits_le last_le)
  have http_lt: "lit ''http'' s = Some r \<Longrightarrow> length r < length s" for s r
    by (cases s) (auto split: if_splits dest!: lit_le)
  have here_lt: "length r < length s" if here: "pid_here fin s = Some r" for fin s r
  proof -
    from here obtain s1 where s1: "lit ''http'' s = Some s1"
      and alt: "Option.bind (lit ''s'' s1) (pid_tail fin) = Some r \<or> pid_tail fin s1 = Some r"
      by (auto simp: pid_here_def bind_eq_Some_conv split: option.splits)
    from alt have "length r \<le> length s1"
      by (auto simp: bind_eq_Some_conv dest!: tail_le lit_le)
    with http_lt[OF s1] show ?thesis by simp
  qed
  from 3 have "pid_here (at_boundary True) (c # cs) = Some rest"
    by (simp add: orcid_regex_def split: if_splits)
  from here_lt[OF this] show ?case by simp
qed

text \<open>
  The pattern as the specification words it, without the word boundaries, and whether a
  text has a substring that matches it.
\<close>

definition spec_pid_here :: "string \<Rightarrow> bool" where
  "spec_pid_here s = (pid_here (\<lambda>rest. True) s \<noteq> None)"

fun spec_contains_pid :: "string \<Rightarrow> bool" where
  "spec_contains_pid [] = False"
| "spec_contains_pid (c # cs) = (spec_pid_here (c # cs) \<or> spec_contains_pid cs)"

section \<open>Identity resolver\<close>

text \<open>\<open>xs[0]\<close> and \<open>xs[-1]\<close> on a list of the program's own.\<close>

definition list_first :: "'a list \<Rightarrow> pyerr + 'a" where
  "list_first xs = (case xs of [] \<Rightarrow> Inl IndexError | x # _ \<Rightarrow> Inr x)"

definition list_last :: "'a list \<Rightarrow> pyerr + 'a" where
  "list_last xs = (if xs = [] then Inl IndexError else Inr (last xs))"

text \<open>\<open>v[0]\<close> on a value of a response.\<close>

definition py_index0 :: "json \<Rightarrow> pyerr + json" where
  "py_index0 v =
     (case v of
        JList xs \<Rightarrow> list_first xs
      | JStr s \<Rightarrow> (case s of [] \<Rightarrow> Inl IndexError | c # _ \<Rightarrow> Inr (JStr [c]))
      | JObj kvs \<Rightarrow> Inl KeyError
      | _ \<Rightarrow> Inl TypeError)"

text \<open>\<open>v > n\<close> for an int \<open>n\<close>: only numbers compare with an int.\<close>

definition py_gt_int :: "json \<Rightarrow> int \<Rightarrow> pyerr + bool" where
  "py_gt_int v n =
     (case v of
        JInt i \<Rightarrow> Inr (n < i)
      | JBool b \<Rightarrow> Inr (n < (if b then 1 else 0))
      | _ \<Rightarrow> Inl TypeError)"

text \<open>\<open>s.split(sep)\<close> with a separator of one character: never an empty list.\<close>

fun split_on :: "char \<Rightarrow> string \<Rightarrow> string list" where
  "split_on sep [] = [[]]"
| "split_on sep (c # cs) =
     (if c = sep then [] # split_on sep cs
      else (case split_on sep cs of [] \<Rightarrow> [[c]] | w # ws \<Rightarrow> (c # w) # ws))"

definition py_split_space :: "json \<Rightarrow> pyerr + string list" where
  "py_split_space v = (case v of JStr s \<Rightarrow> Inr (split_on CHR '' '' s) | _ \<Rightarrow> Inl AttributeError)"

definition py_print :: "string \<Rightarrow> unit io" where
  "py_print s = (\<lambda>tr. (Inr (), tr @ [Print s]))"

definition time_sleep :: "unit io" where
  "time_sleep = (\<lambda>tr. (Inr (), tr @ [Sleep]))"

definition user_url :: "string \<Rightarrow> string" where
  "user_url username = ''https://api.github.com/users/'' @ username"

definition social_accounts_url :: "string \<Rightarrow> string" where
  "social_accounts_url username =
     ''https://api.github.com/users/'' @ username @ ''/social_accounts''"

subsection \<open>\<open>search_github_user_for_orcid\<close>\<close>

text \<open>
  The block the function runs on each of its two responses: on status 200 the matches of
  the pattern in \<open>str\<close> of the parsed body, returned when there are any. \<open>Some ms\<close> is
  \<open>return ms\<close>, \<open>None\<close> is going on.
\<close>

definition orcid_matches_in :: "response \<Rightarrow> string list option io" where
  "orcid_matches_in response =
     (if status_code response = 200
      then io_bind (io_lift (response_json response)) (\<lambda>data.
           let orcid_matches = findall_orcid False (py_str data)
           in if orcid_matches \<noteq> [] then io_return (Some orcid_matches) else io_return None)
      else io_return None)"

definition search_github_user_for_orcid :: "server \<Rightarrow> string \<Rightarrow> string list option io" where
  "search_github_user_for_orcid srv username =
     io_bind (requests_get srv (user_url username)) (\<lambda>response.
     io_bind (orcid_matches_in response) (\<lambda>returned.
     case returned of
       Some orcid_matches \<Rightarrow> io_return (Some orcid_matches)
     | None \<Rightarrow>
         io_bind (requests_get srv (social_accounts_url username)) (\<lambda>response.
         io_bind (orcid_matches_in response) (\<lambda>returned.
         case returned of
           Some orcid_matches \<Rightarrow> io_return (Some orcid_matches)
         | None \<Rightarrow> io_return None))))"

subsection \<open>\<open>get_name_and_institution_from_github_api\<close>\<close>

text \<open>The function returns a pair on status 200 and falls off its end, returning
  \<open>None\<close>, otherwise.\<close>

definition get_name_and_institution_from_github_api ::
  "server \<Rightarrow> string \<Rightarrow> (json \<times> json) option io" where
  "get_name_and_institution_from_github_api srv username =
     io_bind (requests_get srv (user_url username)) (\<lambda>response.
     if status_code response = 200
     then io_bind (io_lift (response_json response)) (\<lambda>user_data.
          io_bind (io_lift (py_get user_data ''name'')) (\<lambda>name.
          io_bind (io_lift (py_get user_data ''company'')) (\<lambda>institution.
          io_return (Some (name, institution)))))
     else io_return None)"

subsection \<open>\<open>search_orcid_individual\<close>\<close>

definition exact_search_url :: "string \<Rightarrow> string \<Rightarrow> json \<Rightarrow> string" where
  "exact_search_url first_name last_name institution =
     ''https://pub.orcid.org/v3.0/search?q=given-names:'' @ first_name @
     ''+AND+family-name:'' @ last_name @
     ''+AND+affiliation-org-name:'' @ py_str institution @ ''&rows=10''"

definition broad_search_url :: "string \<Rightarrow> string \<Rightarrow> string" where
  "broad_search_url first_name last_name =
     ''https://pub.orcid.org/v3.0/search?q=given-names:'' @ first_name @
     ''+AND+family-name:'' @ last_name @ ''&rows=10''"

definition record_url :: "json \<Rightarrow> string" where
  "record_url orcid = ''https://pub.orcid.org/v3.0/'' @ py_str orcid"

definition too_many_warning :: "json \<Rightarrow> string \<Rightarrow> string \<Rightarrow> string" where
  "too_many_warning num_found first_name last_name =
     ''Warning: '' @ py_str num_found @ '' results found for '' @ first_name @ '' '' @
     last_name @ '' without affiliation. Returning None.''"

text \<open>\<open>"".join([char for char in name if char.isupper()])\<close>\<close>

fun upper_only :: "json list \<Rightarrow> pyerr + string list" where
  "upper_only [] = Inr []"
| "upper_only (char # chars) =
     (case char of
        JStr s \<Rightarrow> and_then (upper_only chars) (\<lambda>kept.
                  Inr (if str_isupper s then s # kept else kept))
      | _ \<Rightarrow> Inl AttributeError)"

definition capitalized :: "json \<Rightarrow> pyerr + string" where
  "capitalized name =
     and_then (py_iter name) (\<lambda>chars.
     and_then (upper_only chars) (\<lambda>kept. Inr (concat kept)))"

text \<open>
  The loop over the affiliations of one record. \<open>True\<close> is the \<open>return\<close> in its body,
  \<open>False\<close> the end of the list.
\<close>

fun affiliations_loop :: "json \<Rightarrow> json list \<Rightarrow> pyerr + bool" where
  "affiliations_loop institution [] = Inr False"
| "affiliations_loop institution (iAffiliation # rest) =
     and_then (py_get iAffiliation ''organization'') (\<lambda>organization.
     and_then (py_get organization ''name'') (\<lambda>name.
     and_then (capitalized name) (\<lambda>capitalized_affiliation.
     if py_eq (JStr capitalized_affiliation) institution \<or> py_eq iAffiliation institution
     then Inr True
     else affiliations_loop institution rest)))"

text \<open>
  The loop over the results of the broad search. \<open>Some v\<close> is \<open>return v\<close> in its body
  (\<open>Some JNull\<close> is \<open>return None\<close>), \<open>None\<close> the end of the list.
\<close>

fun candidates_loop ::
  "server \<Rightarrow> json \<Rightarrow> string \<Rightarrow> string \<Rightarrow> json \<Rightarrow> json list \<Rightarrow> json option io" where
  "candidates_loop srv search_results first_name last_name institution [] = io_return None"
| "candidates_loop srv search_results first_name last_name institution (result # rest) =
     io_bind (io_lift (py_get search_results ''num-found'')) (\<lambda>num_found.
     io_bind (io_lift (py_gt_int num_found 10)) (\<lambda>too_many.
     if too_many
     then io_bind (py_print (too_many_warning num_found first_name last_name)) (\<lambda>_.
          io_return (Some JNull))
     else io_bind time_sleep (\<lambda>_.
          io_bind (io_lift (and_then (py_get result ''orcid-identifier'') (\<lambda>identifier.
                            py_get identifier ''path''))) (\<lambda>orcid.
          io_bind (requests_get srv (record_url orcid)) (\<lambda>record_response.
          if status_code record_response = 200
          then io_bind (io_lift (response_json record_response)) (\<lambda>record.
               io_bind (io_lift (and_then (py_get record ''activities-summary'') (\<lambda>activities.
                                 and_then (py_get activities ''employments'') (\<lambda>employments.
                                 py_get employments ''employment-summary'')))) (\<lambda>affiliations.
               io_bind (io_lift (py_iter affiliations)) (\<lambda>affs.
               io_bind (io_lift (affiliations_loop institution affs)) (\<lambda>matched.
               if matched
               then io_return (Some (JStr (''https://orcid.org/'' @ py_str orcid)))
               else candidates_loop srv search_results first_name last_name institution rest))))
          else candidates_loop srv search_results first_name last_name institution rest)))))"

text \<open>\<open>search_results.get("result")[0].get("orcid-identifier").get("uri")\<close>\<close>

definition first_result_uri :: "json \<Rightarrow> pyerr + json" where
  "first_result_uri search_results =
     and_then (py_get search_results ''result'') (\<lambda>result.
     and_then (py_index0 result) (\<lambda>first_result.
     and_then (py_get first_result ''orcid-identifier'') (\<lambda>identifier.
     py_get identifier ''uri'')))"

text \<open>
  The first request of \<open>search_orcid_individual\<close>, with all three fields. \<open>Some v\<close> is
  its \<open>return v\<close>, \<open>None\<close> is going on to the second request.
\<close>

definition exact_search :: "server \<Rightarrow> string \<Rightarrow> string \<Rightarrow> json \<Rightarrow> json option io" where
  "exact_search srv first_name last_name institution =
     io_bind (requests_get srv (exact_search_url first_name last_name institution)) (\<lambda>response.
     if status_code response = 200
     then io_bind (io_lift (response_json response)) (\<lambda>search_results.
          io_bind (io_lift (py_get search_results ''num-found'')) (\<lambda>num_found.
          if py_eq num_found (JInt 1)
          then io_bind (io_lift (first_result_uri search_results)) (\<lambda>uri.
               io_return (Some uri))
          else io_return None))
     else io_return None)"

text \<open>The second request, without the organization, and the loop over its results.\<close>

definition broad_search :: "server \<Rightarrow> string \<Rightarrow> string \<Rightarrow> json \<Rightarrow> json io" where
  "broad_search srv first_name last_name institution =
     io_bind (requests_get srv (broad_search_url first_name last_name)) (\<lambda>response.
     if status_code response = 200
     then io_bind (io_lift (response_json response)) (\<lambda>search_results.
          io_bind (io_lift (and_then (py_get search_results ''result'') py_iter)) (\<lambda>results.
          io_bind (candidates_loop srv search_results first_name last_name institution results)
            (\<lambda>returned.
          case returned of Some v \<Rightarrow> io_return v | None \<Rightarrow> io_return JNull)))
     else io_return JNull)"

definition search_orcid_individual :: "server \<Rightarrow> json \<Rightarrow> json \<Rightarrow> json io" where
  "search_orcid_individual srv name institution =
     io_bind (io_lift (and_then (py_split_space name) list_first)) (\<lambda>first_name.
     io_bind (io_lift (and_then (py_split_space name) list_last)) (\<lambda>last_name.
     io_bind (exact_search srv first_name last_name institution) (\<lambda>returned.
     case returned of
       Some v \<Rightarrow> io_return v
     | None \<Rightarrow> broad_search srv first_name last_name institution)))"

subsection \<open>\<open>search_github_user_for_orcid_robust\<close>\<close>

text \<open>
  \<open>search_github_user_for_orcid\<close> returns a list or \<open>None\<close>, never a str: the branch
  \<open>type(orcid_links) == str\<close> of the code is not reached. Unpacking
  \<open>[name, affiliation] = None\<close> raises \<open>TypeError\<close>.
\<close>

definition search_github_user_for_orcid_robust :: "server \<Rightarrow> string \<Rightarrow> json io" where
  "search_github_user_for_orcid_robust srv username =
     io_bind (requests_get srv (user_url username)) (\<lambda>response.
     if status_code response \<noteq> 200
     then io_raise (ValueError (''GitHub user '' @ username @ '' does not exist.''))
     else io_bind (search_github_user_for_orcid srv username) (\<lambda>orcid_links.
          case orcid_links of
            Some links \<Rightarrow> io_bind (io_lift (list_first links)) (\<lambda>link. io_return (JStr link))
          | None \<Rightarrow>
              io_bind (get_name_and_institution_from_github_api srv username) (\<lambda>unpacked.
              case unpacked of
                None \<Rightarrow> io_raise TypeError
              | Some (name, affiliation) \<Rightarrow>
                  io_bind (search_orcid_individual srv name affiliation) (\<lambda>orcid_link.
                  if orcid_link \<noteq> JNull then io_return orcid_link else io_return JNull))))"

text \<open>The given name and the family name the searches use for a display name.\<close>

definition given_name :: "string \<Rightarrow> string" where
  "given_name name = hd (split_on CHR '' '' name)"

definition family_name :: "string \<Rightarrow> string" where
  "family_name name = last (split_on CHR '' '' name)"

subsection \<open>Example servers\<close>

text \<open>
  A server that answers from a table of URLs, the same way at every moment, and with
  404 for any other URL. The examples are about a user \<open>u\<close> whose display name is
  \<open>Ann Lee\<close>.
\<close>

definition ok :: "json \<Rightarrow> response" where
  "ok j = \<lparr>status_code = 200, body = Some j\<rparr>"

definition not_found :: response where
  "not_found = \<lparr>status_code = 404, body = None\<rparr>"

definition table_server :: "(string \<times> response) list \<Rightarrow> server" where
  "table_server table tr url = (case map_of table url of None \<Rightarrow> not_found | Some r \<Rightarrow> r)"

definition ann_profile :: "json \<Rightarrow> json \<Rightarrow> json" where
  "ann_profile company bio =
     JObj [(''login'', JStr ''u''), (''name'', JStr ''Ann Lee''), (''company'', company),
           (''bio'', bio)]"

definition candidate :: json where
  "candidate =
     JObj [(''orcid-identifier'',
            JObj [(''uri'', JStr ''https://orcid.org/0000-0002-2469-0494''),
                  (''path'', JStr ''0000-0002-2469-0494'')])]"

definition employment_record :: "string \<Rightarrow> json" where
  "employment_record organization_name =
     JObj [(''activities-summary'',
            JObj [(''employments'',
                   JObj [(''employment-summary'',
                          JList [JObj [(''organization'',
                                       JObj [(''name'', JStr organization_name)])]])])])]"

text \<open>The profile names an ORCID iD in its bio.\<close>

definition listed_server :: server where
  "listed_server =
     table_server
       [(''https://api.github.com/users/u'',
         ok (ann_profile JNull (JStr ''ORCID: https://orcid.org/0000-0002-4321-2180'')))]"

text \<open>The bio has the text of an ORCID link with one more digit after it.\<close>

definition glued_server :: server where
  "glued_server =
     table_server
       [(''https://api.github.com/users/u'',
         ok (ann_profile (JStr ''MIT'') (JStr ''https://orcid.org/0000-0002-4321-21801'')))]"

text \<open>The user has set no display name and no company.\<close>

definition nameless_server :: server where
  "nameless_server =
     table_server
       [(''https://api.github.com/users/u'',
         ok (JObj [(''login'', JStr ''u''), (''name'', JNull), (''company'', JNull)]))]"

text \<open>The profile is there for the first three requests of the run and gone afterwards.\<close>

definition vanishing_server :: server where
  "vanishing_server tr url =
     (if url = ''https://api.github.com/users/u'' \<and> length tr < 3
      then ok (ann_profile JNull JNull)
      else not_found)"

text \<open>
  The registry knows one Ann Lee, employed at \<open>organization_name\<close>; the search with the
  declared company finds nobody.
\<close>

definition registry_server :: "string \<Rightarrow> string \<Rightarrow> server" where
  "registry_server company organization_name =
     table_server
       [(''https://api.github.com/users/u'', ok (ann_profile (JStr company) JNull)),
        (''https://pub.orcid.org/v3.0/search?q=given-names:Ann+AND+family-name:Lee'' @
         ''+AND+affiliation-org-name:'' @ company @ ''&rows=10'',
         ok (JObj [(''num-found'', JInt 0), (''result'', JList [])])),
        (''https://pub.orcid.org/v3.0/search?q=given-names:Ann+AND+family-name:Lee&rows=10'',
         ok (JObj [(''num-found'', JInt 1), (''result'', JList [candidate])])),
        (''https://pub.orcid.org/v3.0/0000-0002-2469-0494'',
         ok (employment_record organization_name))]"

text \<open>The search with the declared company finds exactly one record.\<close>

definition exact_server :: server where
  "exact_server =
     table_server
       [(''https://api.github.com/users/u'', ok (ann_profile (JStr ''MIT'') JNull)),
        (''https://pub.orcid.org/v3.0/search?q=given-names:Ann+AND+family-name:Lee'' @
         ''+AND+affiliation-org-name:MIT&rows=10'',
         ok (JObj [(''num-found'', JInt 1), (''result'', JList [candidate])]))]"

text \<open>The search without the company reports 11 records and lists \<open>results\<close>.\<close>

definition crowded_server :: "json list \<Rightarrow> server" where
  "crowded_server results =
     table_server
       [(''https://api.github.com/users/u'', ok (ann_profile (JStr ''MIT'') JNull)),
        (''https://pub.orcid.org/v3.0/search?q=given-names:Ann+AND+family-name:Lee&rows=10'',
         ok (JObj [(''num-found'', JInt 11), (''result'', JList results)]))]"

section \<open>Properties of the aggregator\<close>

lemma io_bind_lift_Inr: "io_bind (io_lift (Inr x)) f = f x"
  by (simp add: io_bind_def io_lift_def)

lemma io_lift_apply: "io_lift r tr = (r, tr)"
  by (simp add: io_lift_def)

lemma io_return_apply: "io_return x tr = (Inr x, tr)"
  by (simp add: io_return_def)

lemma io_raise_apply: "io_raise e tr = (Inl e, tr)"
  by (simp add: io_raise_def)

lemma io_bind_lift_Inl: "io_bind (io_lift (Inl e)) f = io_raise e"
  by (simp add: io_bind_def io_lift_def io_raise_def)

lemma io_bind_return: "io_bind (io_return x) f = f x"
  by (simp add: io_bind_def io_return_def)

lemma io_bind_raise: "io_bind (io_raise e) f = io_raise e"
  by (simp add: io_bind_def io_raise_def)

lemma io_bind_Inr: "m tr = (Inr x, tr') \<Longrightarrow> io_bind m f tr = f x tr'"
  by (simp add: io_bind_def)

lemma io_bind_Inl: "m tr = (Inl e, tr') \<Longrightarrow> io_bind m f tr = (Inl e, tr')"
  by (simp add: io_bind_def)

lemma io_bind_get: "io_bind (requests_get srv url) f tr = f (srv tr url) (tr @ [Get url])"
  by (simp add: io_bind_def requests_get_def)

lemmas io_simps = io_bind_lift_Inr io_bind_lift_Inl io_bind_return io_bind_raise io_bind_get
  io_lift_apply io_return_apply io_raise_apply

lemma io_bind_result:
  "io_bind m f tr = (Inr y, tr'') \<Longrightarrow> \<exists>x tr'. m tr = (Inr x, tr') \<and> f x tr' = (Inr y, tr'')"
  by (auto simp: io_bind_def split: prod.splits sum.splits)

lemma count_truthy:
  "count_ok k week \<Longrightarrow> py_get week k = Inr v \<Longrightarrow> py_truthy v = (week_count k week \<noteq> 0)"
  by (auto simp: count_ok_def week_count_def py_get_def py_get_default_def
      split: json.splits option.splits sum.splits if_splits)

lemma count_ok_get: "count_ok k week \<Longrightarrow> \<exists>v. py_get week k = Inr v"
  by (auto simp: count_ok_def py_get_def py_get_default_def split: json.splits)

lemma sum_weeks_ok:
  "\<forall>week\<in>set ws. count_ok k week \<Longrightarrow>
   sum_weeks k acc ws = Inr (acc + sum_list (map (week_count k) ws))"
proof (induction ws arbitrary: acc)
  case Nil
  show ?case by simp
next
  case (Cons week ws)
  from Cons.prems have ok: "count_ok k week" by simp
  then obtain v where v: "py_get_default week k (JInt 0) = Inr v"
    by (auto simp: count_ok_def split: sum.splits)
  with ok have "py_add_int acc v = Inr (acc + week_count k week)"
    by (auto simp: count_ok_def week_count_def py_add_int_def split: json.splits)
  with v Cons show ?case by (simp add: and_then_def add.assoc)
qed

lemma active_weeks_ok:
  "\<forall>week\<in>set ws. week_ok week \<Longrightarrow>
   active_weeks ws = Inr (map week_start (filter active_week ws))"
proof (induction ws)
  case Nil
  show ?case by simp
next
  case (Cons week ws)
  from Cons.prems have a: "count_ok ''a'' week" and d: "count_ok ''d'' week"
    by (simp_all add: week_ok_def)
  from a obtain va where va: "py_get week ''a'' = Inr va" using count_ok_get by blast
  from d obtain vd where vd: "py_get week ''d'' = Inr vd" using count_ok_get by blast
  from va obtain vw where vw: "py_get week ''w'' = Inr vw"
    by (auto simp: py_get_def py_get_default_def split: json.splits)
  have ta: "py_truthy va = (week_count ''a'' week \<noteq> 0)" using a va by (rule count_truthy)
  have td: "py_truthy vd = (week_count ''d'' week \<noteq> 0)" using d vd by (rule count_truthy)
  from Cons have IH: "active_weeks ws = Inr (map week_start (filter active_week ws))" by simp
  have aw: "active_week week = (week_count ''a'' week \<noteq> 0 \<or> week_count ''d'' week \<noteq> 0)"
    by (simp add: active_week_def)
  have sw: "week_start week = vw" by (simp add: week_start_def vw)
  show ?case
    by (simp add: va vd vw ta td IH and_then_def aw sw)
qed

lemma stats_loop_no_match:
  "\<forall>e\<in>set entries. other_author (login c) e \<Longrightarrow> stats_loop entries c = Inr c"
  by (induction entries)
     (auto simp: other_author_def author_login_def and_then_def split: sum.splits)

lemma stats_loop_match:
  assumes "\<forall>e\<in>set pre. other_author (login c) e"
    and "author_login e = Inr l" and "py_eq l (login c)"
    and "py_get e ''weeks'' = Inr wv" and "py_iter wv = Inr ws"
    and "\<forall>week\<in>set ws. week_ok week"
  shows "stats_loop (pre @ e # post) c =
     Inr (c\<lparr>volume := Some (sum_list (map (week_count ''a'') ws) + sum_list (map (week_count ''d'') ws)),
           contributed_dates := map week_start (filter active_week ws)\<rparr>)"
  using assms(1)
proof (induction pre)
  case Nil
  from assms(6) have a: "\<forall>week\<in>set ws. count_ok ''a'' week" and d: "\<forall>week\<in>set ws. count_ok ''d'' week"
    by (simp_all add: week_ok_def)
  from assms(2) obtain au where au: "py_get e ''author'' = Inr au" "py_get au ''login'' = Inr l"
    by (auto simp: author_login_def and_then_def split: sum.splits)
  show ?case
    by (simp add: au assms(3,4,5) sum_weeks_ok[OF a] sum_weeks_ok[OF d]
        active_weeks_ok[OF assms(6)] and_then_def)
next
  case (Cons x pre)
  then show ?case
    by (auto simp: other_author_def author_login_def and_then_def split: sum.splits)
qed

lemma stats_loop_keeps:
  "stats_loop entries c = Inr c' \<Longrightarrow> login c' = login c \<and> contributions c' = contributions c"
  by (induction entries) (auto simp: and_then_def split: sum.splits if_splits)

lemma process_contributor_same:
  assumes "process_contributor srv owner repo cd tr = (Inr c, tr')"
  shows "same_entry c cd"
  using assms
  by (auto simp: process_contributor_def io_bind_def io_lift_def io_return_def requests_get_def
      same_entry_def dest: stats_loop_keeps split: sum.splits if_splits prod.splits)

lemma contributors_loop_order:
  "contributors_loop srv owner repo cds acc tr = (Inr cs, tr') \<Longrightarrow>
   \<exists>new. cs = acc @ new \<and> list_all2 same_entry new cds"
proof (induction cds arbitrary: acc tr)
  case Nil
  then show ?case by (simp add: io_return_def)
next
  case (Cons cd cds)
  from Cons.prems obtain c tr1 where
    c: "process_contributor srv owner repo cd tr = (Inr c, tr1)" and
    r: "contributors_loop srv owner repo cds (acc @ [c]) tr1 = (Inr cs, tr')"
    by (auto dest!: io_bind_result)
  from Cons.IH[OF r] obtain new where "cs = (acc @ [c]) @ new" "list_all2 same_entry new cds"
    by blast
  with process_contributor_same[OF c] show ?case by auto
qed

text \<open>
  Claim C8. A contributor whose login equals the author login of a statistics entry (the
  first such entry, all earlier ones having another author) gets as volume the sum of the
  additions of all weeks of that entry plus the sum of their deletions, and as activity
  dates the week starts of the weeks with a nonzero count of additions or of deletions, in
  the order of the weeks.
\<close>

theorem matched_contributor_volume_and_dates:
  assumes "py_get contributor_data ''login'' = Inr l"
    and "py_get contributor_data ''contributions'' = Inr n"
    and "status_code (srv tr (contributor_stats_url owner repo)) = 200"
    and "body (srv tr (contributor_stats_url owner repo)) = Some stats_data"
    and "py_iter stats_data = Inr (pre @ stats # post)"
    and "\<forall>e\<in>set pre. other_author l e"
    and "author_login stats = Inr l'" and "py_eq l' l"
    and "py_get stats ''weeks'' = Inr weeks" and "py_iter weeks = Inr ws"
    and "\<forall>week\<in>set ws. week_ok week"
  shows "process_contributor srv owner repo contributor_data tr =
     (Inr \<lparr>login = l, contributions = n,
           contributed_dates = map week_start (filter active_week ws),
           volume = Some (sum_list (map (week_count ''a'') ws) + sum_list (map (week_count ''d'') ws))\<rparr>,
      tr @ [Get (contributor_stats_url owner repo)])"
proof -
  let ?c = "\<lparr>login = l, contributions = n, contributed_dates = [], volume = None\<rparr>"
  have pre: "\<forall>e\<in>set pre. other_author (login ?c) e" using assms(6) by simp
  have eq: "py_eq l' (login ?c)" using assms(8) by simp
  have loop: "stats_loop (pre @ stats # post) ?c =
     Inr \<lparr>login = l, contributions = n,
           contributed_dates = map week_start (filter active_week ws),
           volume = Some (sum_list (map (week_count ''a'') ws) + sum_list (map (week_count ''d'') ws))\<rparr>"
    using stats_loop_match[OF pre assms(7) eq assms(9) assms(10) assms(11), of post] by simp
  show ?thesis
    by (simp add: process_contributor_def assms(1-5) io_simps response_json_def loop)
qed

text \<open>The first contributor of the example repository: 3 + 0 + 0 additions, 1 + 0 + 5 deletions.\<close>

theorem matched_contributor_volume_and_dates_witness:
  "process_contributor repo_server ''o'' ''r'' ann [] =
     (Inr \<lparr>login = JStr ''ann'', contributions = JInt 7,
           contributed_dates = [JInt 100, JInt 300], volume = Some 9\<rparr>,
      [Get (contributor_stats_url ''o'' ''r'')])"
proof -
  have w: "\<forall>week\<in>set ann_weeks. week_ok week"
    by (simp add: ann_weeks_def week_ok_def count_ok_def py_get_default_def)
  have "process_contributor repo_server ''o'' ''r'' ann [] =
     (Inr \<lparr>login = JStr ''ann'', contributions = JInt 7,
           contributed_dates = map week_start (filter active_week ann_weeks),
           volume = Some (sum_list (map (week_count ''a'') ann_weeks) + sum_list (map (week_count ''d'') ann_weeks))\<rparr>,
      [] @ [Get (contributor_stats_url ''o'' ''r'')])"
    by (rule matched_contributor_volume_and_dates[where pre = "[]" and stats = ann_stats and post = "[]" and l' = "JStr ''ann''"
          and weeks = "JList ann_weeks" and stats_data = "JList [ann_stats]"])
       (simp_all add: w ann_def ann_stats_def repo_server_def py_get_def py_get_default_def
          contributors_url_def contributor_stats_url_def py_iter_def author_login_def and_then_def)
  then show ?thesis
    by (simp add: ann_weeks_def week_start_def active_week_def week_count_def py_get_def
        py_get_default_def)
qed


text \<open>
  Claim C7, amended. Let an entry of the contributor list be an object, and let the
  statistics request answer 200 with a body that can be iterated and whose entries all
  have an author object with a login other than the contributor's. Then the contributor
  gets a record without volume and with an empty list of activity dates, and the loop goes
  on with the remaining contributors.
\<close>

theorem unmatched_contributor_kept:
  assumes "py_get contributor_data ''login'' = Inr l"
    and "py_get contributor_data ''contributions'' = Inr n"
    and "status_code (srv tr (contributor_stats_url owner repo)) = 200"
    and "body (srv tr (contributor_stats_url owner repo)) = Some stats_data"
    and "py_iter stats_data = Inr entries"
    and "\<forall>e\<in>set entries. other_author l e"
  shows "process_contributor srv owner repo contributor_data tr =
       (Inr \<lparr>login = l, contributions = n, contributed_dates = [], volume = None\<rparr>,
        tr @ [Get (contributor_stats_url owner repo)]) \<and>
     contributors_loop srv owner repo (contributor_data # rest) acc tr =
       contributors_loop srv owner repo rest
         (acc @ [\<lparr>login = l, contributions = n, contributed_dates = [], volume = None\<rparr>])
         (tr @ [Get (contributor_stats_url owner repo)])"
proof -
  let ?c = "\<lparr>login = l, contributions = n, contributed_dates = [], volume = None\<rparr>"
  have "\<forall>e\<in>set entries. other_author (login ?c) e" using assms(6) by simp
  then have loop: "stats_loop entries ?c = Inr ?c" by (rule stats_loop_no_match)
  have step: "process_contributor srv owner repo contributor_data tr =
       (Inr ?c, tr @ [Get (contributor_stats_url owner repo)])"
    by (simp add: process_contributor_def assms(1-5) io_simps response_json_def loop)
  have "contributors_loop srv owner repo (contributor_data # rest) acc tr =
       contributors_loop srv owner repo rest (acc @ [?c])
         (tr @ [Get (contributor_stats_url owner repo)])"
    by (simp add: io_bind_def step)
  with step show ?thesis by simp
qed

text \<open>The example repository, the contributor without statistics listed first.\<close>

theorem unmatched_contributor_kept_witness:
  "process_contributor repo_server ''o'' ''r'' bob [] =
     (Inr \<lparr>login = JStr ''bob'', contributions = JInt 2, contributed_dates = [], volume = None\<rparr>,
      [Get (contributor_stats_url ''o'' ''r'')]) \<and>
   contributors_loop repo_server ''o'' ''r'' [bob, ann] [] [] =
     (Inr [\<lparr>login = JStr ''bob'', contributions = JInt 2, contributed_dates = [], volume = None\<rparr>,
           \<lparr>login = JStr ''ann'', contributions = JInt 7,
            contributed_dates = [JInt 100, JInt 300], volume = Some 9\<rparr>],
      [Get (contributor_stats_url ''o'' ''r''), Get (contributor_stats_url ''o'' ''r'')])"
proof -
  have url: "contributor_stats_url ''o'' ''r'' \<noteq> contributors_url ''o'' ''r''"
    by (simp add: contributor_stats_url_def contributors_url_def)
  have other: "\<forall>e\<in>set [ann_stats]. other_author (JStr ''bob'') e"
    by (simp add: other_author_def author_login_def ann_stats_def py_get_def py_get_default_def
        and_then_def)
  have ann_run: "process_contributor repo_server ''o'' ''r'' ann tr =
     (Inr \<lparr>login = JStr ''ann'', contributions = JInt 7,
           contributed_dates = [JInt 100, JInt 300], volume = Some 9\<rparr>,
      tr @ [Get (contributor_stats_url ''o'' ''r'')])" for tr
    by (simp add: process_contributor_def repo_server_def url ann_def ann_stats_def ann_weeks_def
        io_simps response_json_def py_get_def py_get_default_def py_iter_def and_then_def
        py_add_int_def)
  have "process_contributor repo_server ''o'' ''r'' bob [] =
       (Inr \<lparr>login = JStr ''bob'', contributions = JInt 2, contributed_dates = [], volume = None\<rparr>,
        [] @ [Get (contributor_stats_url ''o'' ''r'')]) \<and>
     contributors_loop repo_server ''o'' ''r'' (bob # [ann]) [] [] =
       contributors_loop repo_server ''o'' ''r'' [ann]
         ([] @ [\<lparr>login = JStr ''bob'', contributions = JInt 2, contributed_dates = [], volume = None\<rparr>])
         ([] @ [Get (contributor_stats_url ''o'' ''r'')])"
    by (rule unmatched_contributor_kept[where stats_data = "JList [ann_stats]" and entries = "[ann_stats]"])
       (simp_all add: other bob_def repo_server_def url py_get_def py_get_default_def py_iter_def)
  then show ?thesis
    by (simp add: io_bind_def ann_run io_return_apply)
qed

text \<open>
  Claim C7 as stated fails. The code reads the author login of every statistics entry up
  to the first match and has no handler for an exception. In the example the second
  entry has no author: the first contributor matches the first entry and is processed,
  the second contributor matches no entry, and reading the login of the missing author
  raises \<open>AttributeError\<close>, which ends the whole aggregation.
\<close>

theorem unmatched_contributor_null_author_fails:
  "process_contributor null_author_server ''o'' ''r'' bob [] =
     (Inl AttributeError, [Get (contributor_stats_url ''o'' ''r'')]) \<and>
   get_repository_contributors null_author_server ''o'' ''r'' [] =
     (Inl AttributeError,
      [Get (contributors_url ''o'' ''r''), Get (contributor_stats_url ''o'' ''r''),
       Get (contributor_stats_url ''o'' ''r'')])"
  by code_simp

text \<open>
  Claim C9. When the contributor list answers with a status other than 200, the result is
  the empty list and nothing is raised. When it answers 200, the result lists the
  contributors of the response in the order of the response: the two lists correspond
  position by position.
\<close>

theorem contributors_status_and_order:
  "(status_code (srv tr (contributors_url owner repo)) \<noteq> 200 \<longrightarrow>
      get_repository_contributors srv owner repo tr =
        (Inr [], tr @ [Get (contributors_url owner repo)])) \<and>
   (status_code (srv tr (contributors_url owner repo)) = 200 \<longrightarrow>
      get_repository_contributors srv owner repo tr = (Inr cs, tr') \<longrightarrow>
      (\<exists>contributors_data cds.
          body (srv tr (contributors_url owner repo)) = Some contributors_data \<and>
          py_iter contributors_data = Inr cds \<and> list_all2 same_entry cs cds))"
proof (intro conjI impI)
  assume "status_code (srv tr (contributors_url owner repo)) \<noteq> 200"
  then show "get_repository_contributors srv owner repo tr =
        (Inr [], tr @ [Get (contributors_url owner repo)])"
    by (simp add: get_repository_contributors_def io_simps)
next
  let ?r = "srv tr (contributors_url owner repo)"
  assume ok: "status_code ?r = 200"
    and run: "get_repository_contributors srv owner repo tr = (Inr cs, tr')"
  from run ok have run': "io_bind (io_lift (response_json ?r)) (\<lambda>contributors_data.
          io_bind (io_lift (py_iter contributors_data)) (\<lambda>cds.
          contributors_loop srv owner repo cds [])) (tr @ [Get (contributors_url owner repo)])
       = (Inr cs, tr')"
    by (simp add: get_repository_contributors_def io_simps)
  then obtain contributors_data where b: "body ?r = Some contributors_data"
    by (cases "body ?r") (simp_all add: response_json_def io_simps)
  with run' obtain cds where it: "py_iter contributors_data = Inr cds"
    by (cases "py_iter contributors_data") (simp_all add: response_json_def io_simps)
  with run' b have "contributors_loop srv owner repo cds []
      (tr @ [Get (contributors_url owner repo)]) = (Inr cs, tr')"
    by (simp add: response_json_def io_simps)
  from contributors_loop_order[OF this] have "list_all2 same_entry cs cds" by simp
  with b it show "\<exists>contributors_data cds.
          body ?r = Some contributors_data \<and>
          py_iter contributors_data = Inr cds \<and> list_all2 same_entry cs cds"
    by blast
qed

text \<open>A server that is down, and the example repository.\<close>

theorem contributors_status_and_order_witness:
  "get_repository_contributors down_server ''o'' ''r'' [] =
     (Inr [], [Get (contributors_url ''o'' ''r'')]) \<and>
   get_repository_contributors repo_server ''o'' ''r'' [] =
     (Inr [\<lparr>login = JStr ''ann'', contributions = JInt 7,
            contributed_dates = [JInt 100, JInt 300], volume = Some 9\<rparr>,
           \<lparr>login = JStr ''bob'', contributions = JInt 2, contributed_dates = [], volume = None\<rparr>],
      [Get (contributors_url ''o'' ''r''), Get (contributor_stats_url ''o'' ''r''),
       Get (contributor_stats_url ''o'' ''r'')]) \<and>
   list_all2 same_entry
     [\<lparr>login = JStr ''ann'', contributions = JInt 7,
            contributed_dates = [JInt 100, JInt 300], volume = Some 9\<rparr>,
      \<lparr>login = JStr ''bob'', contributions = JInt 2, contributed_dates = [], volume = None\<rparr>]
     [ann, bob]"
proof -
  let ?cs = "[\<lparr>login = JStr ''ann'', contributions = JInt 7,
            contributed_dates = [JInt 100, JInt 300], volume = Some 9\<rparr>,
      \<lparr>login = JStr ''bob'', contributions = JInt 2, contributed_dates = [], volume = None\<rparr>]"
  have url: "contributor_stats_url ''o'' ''r'' \<noteq> contributors_url ''o'' ''r''"
    by (simp add: contributor_stats_url_def contributors_url_def)
  have down: "status_code (down_server [] (contributors_url ''o'' ''r'')) \<noteq> 200"
    by (simp add: down_server_def)
  have up: "status_code (repo_server [] (contributors_url ''o'' ''r'')) = 200"
    by (simp add: repo_server_def)
  have b: "body (repo_server [] (contributors_url ''o'' ''r'')) = Some (JList [ann, bob])"
    by (simp add: repo_server_def)
  have run: "get_repository_contributors repo_server ''o'' ''r'' [] =
     (Inr ?cs, [Get (contributors_url ''o'' ''r''), Get (contributor_stats_url ''o'' ''r''),
       Get (contributor_stats_url ''o'' ''r'')])"
    by (simp add: get_repository_contributors_def process_contributor_def repo_server_def url
        ann_def bob_def ann_stats_def ann_weeks_def io_bind_def io_lift_def io_return_def
        requests_get_def response_json_def py_get_def py_get_default_def py_iter_def
        and_then_def py_add_int_def)
  from contributors_status_and_order[of down_server "[]" "''o''" "''r''"] down
  have one: "get_repository_contributors down_server ''o'' ''r'' [] =
     (Inr [], [Get (contributors_url ''o'' ''r'')])" by simp
  from contributors_status_and_order[of repo_server "[]" "''o''" "''r''" ?cs] up run b
  have "list_all2 same_entry ?cs [ann, bob]"
    by (simp add: py_iter_def)
  with one run show ?thesis by simp
qed

section \<open>Properties of the identity resolver\<close>

lemma io_bind_return_self:
  "io_bind m (\<lambda>x. if x \<noteq> JNull then io_return x else io_return JNull) = m"
  by (auto simp: io_bind_def io_return_def fun_eq_iff split: prod.splits sum.splits)

lemma split_on_nonempty: "split_on sep s \<noteq> []"
  by (induction s) (auto split: list.splits)

lemma first_name_of: "and_then (py_split_space (JStr name)) list_first = Inr (given_name name)"
  using split_on_nonempty[of "CHR '' ''" name]
  by (simp add: py_split_space_def and_then_def list_first_def given_name_def split: list.splits)

lemma last_name_of: "and_then (py_split_space (JStr name)) list_last = Inr (family_name name)"
  using split_on_nonempty[of "CHR '' ''" name]
  by (simp add: py_split_space_def and_then_def list_last_def family_name_def)

lemma orcid_matches_in_nonempty:
  "orcid_matches_in response tr = (Inr (Some ms), tr') \<Longrightarrow> ms \<noteq> []"
  by (auto simp: orcid_matches_in_def io_bind_def io_lift_def io_return_def Let_def
      split: if_splits sum.splits prod.splits)

lemma orcid_matches_in_found:
  assumes "status_code response = 200" and "body response = Some data"
    and "findall_orcid False (py_str data) = m # ms"
  shows "orcid_matches_in response tr = (Inr (Some (m # ms)), tr)"
  using assms by (simp add: orcid_matches_in_def response_json_def io_simps)

lemma robust_registry:
  assumes "status_code (srv tr (user_url username)) = 200"
    and "search_github_user_for_orcid srv username (tr @ [Get (user_url username)]) = (Inr None, tr2)"
    and "get_name_and_institution_from_github_api srv username tr2 =
          (Inr (Some (JStr name, institution)), tr3)"
  shows "search_github_user_for_orcid_robust srv username tr =
     io_bind (exact_search srv (given_name name) (family_name name) institution) (\<lambda>returned.
       case returned of
         Some v \<Rightarrow> io_return v
       | None \<Rightarrow> broad_search srv (given_name name) (family_name name) institution) tr3"
proof -
  have "search_github_user_for_orcid_robust srv username tr =
      search_orcid_individual srv (JStr name) institution tr3"
    using assms
    by (simp add: search_github_user_for_orcid_robust_def io_bind_get io_bind_return_self)
       (simp add: io_bind_def)
  then show ?thesis
    by (simp add: search_orcid_individual_def first_name_of last_name_of io_simps)
qed

text \<open>
  Claim C4. When the first profile request answers with a status other than 200, the
  resolver raises \<open>ValueError\<close> with the message that the user does not exist; it does
  not return \<open>None\<close>, and it makes no further request.
\<close>

theorem missing_user_raises:
  "status_code (srv tr (user_url username)) \<noteq> 200 \<Longrightarrow>
   search_github_user_for_orcid_robust srv username tr =
     (Inl (ValueError (''GitHub user '' @ username @ '' does not exist.'')),
      tr @ [Get (user_url username)])"
  by (simp add: search_github_user_for_orcid_robust_def io_simps)

text \<open>A user the example server does not know.\<close>

theorem missing_user_raises_witness:
  "search_github_user_for_orcid_robust listed_server ''nobody'' [] =
     (Inl (ValueError ''GitHub user nobody does not exist.''),
      [Get ''https://api.github.com/users/nobody''])"
proof -
  have "status_code (listed_server [] (user_url ''nobody'')) \<noteq> 200"
    by (simp add: listed_server_def table_server_def user_url_def not_found_def)
  from missing_user_raises[of listed_server "[]" "''nobody''"] this show ?thesis by (simp add: user_url_def)
qed

text \<open>
  Claim C10. The scan of the profile and of the social links never returns an empty list:
  a result that is not \<open>None\<close> is a list with at least one match, so that taking its
  first element, as the caller does, succeeds.
\<close>

theorem scan_result_nonempty:
  "search_github_user_for_orcid srv username tr = (Inr (Some ms), tr') \<Longrightarrow>
   ms \<noteq> [] \<and> list_first ms = Inr (hd ms)"
proof -
  assume run: "search_github_user_for_orcid srv username tr = (Inr (Some ms), tr')"
  then have "\<exists>response t t'. orcid_matches_in response t = (Inr (Some ms), t')"
    by (auto simp: search_github_user_for_orcid_def io_bind_def requests_get_def io_return_def
        split: prod.splits sum.splits option.splits)
  then have "ms \<noteq> []" using orcid_matches_in_nonempty by blast
  then show ?thesis by (cases ms) (simp_all add: list_first_def)
qed

text \<open>The profile with an ORCID iD in its bio.\<close>

theorem scan_result_nonempty_witness:
  "search_github_user_for_orcid listed_server ''u'' [] =
     (Inr (Some [''https://orcid.org/0000-0002-4321-2180'']), [Get ''https://api.github.com/users/u'']) \<and>
   [''https://orcid.org/0000-0002-4321-2180''] \<noteq> [] \<and>
   list_first [''https://orcid.org/0000-0002-4321-2180''] = Inr ''https://orcid.org/0000-0002-4321-2180''"
proof -
  have run: "search_github_user_for_orcid listed_server ''u'' [] =
     (Inr (Some [''https://orcid.org/0000-0002-4321-2180'']), [Get ''https://api.github.com/users/u''])"
    by code_simp
  from scan_result_nonempty[OF run] run show ?thesis by simp
qed

text \<open>
  Claim C3, amended. When the profile exists and the profile request of the scan answers
  200 with a body whose \<open>str\<close> has at least one match of the pattern of the code, which
  asks for a word boundary in front of \<open>http\<close> and one after the last character, the
  resolver returns the first match, and its only requests are the two for the profile:
  neither the social links nor the registry are asked.
\<close>

theorem profile_link_returned:
  assumes "status_code (srv tr (user_url username)) = 200"
    and "status_code (srv (tr @ [Get (user_url username)]) (user_url username)) = 200"
    and "body (srv (tr @ [Get (user_url username)]) (user_url username)) = Some user_data"
    and "findall_orcid False (py_str user_data) = m # ms"
  shows "search_github_user_for_orcid_robust srv username tr =
     (Inr (JStr m), tr @ [Get (user_url username), Get (user_url username)])"
proof -
  have "search_github_user_for_orcid srv username (tr @ [Get (user_url username)]) =
      (Inr (Some (m # ms)), tr @ [Get (user_url username), Get (user_url username)])"
    using orcid_matches_in_found[OF assms(2,3,4)]
    by (simp add: search_github_user_for_orcid_def io_bind_get)
       (simp add: io_bind_def io_return_def)
  then show ?thesis
    using assms(1)
    by (simp add: search_github_user_for_orcid_robust_def io_bind_get)
       (simp add: io_bind_def io_return_def io_lift_def list_first_def)
qed

text \<open>The profile with an ORCID iD in its bio.\<close>

theorem profile_link_returned_witness:
  "search_github_user_for_orcid_robust listed_server ''u'' [] =
     (Inr (JStr ''https://orcid.org/0000-0002-4321-2180''),
      [Get ''https://api.github.com/users/u'', Get ''https://api.github.com/users/u''])"
proof -
  let ?data = "ann_profile JNull (JStr ''ORCID: https://orcid.org/0000-0002-4321-2180'')"
  have a: "status_code (listed_server [] (user_url ''u'')) = 200"
    by (simp add: listed_server_def table_server_def user_url_def ok_def)
  have b: "status_code (listed_server ([] @ [Get (user_url ''u'')]) (user_url ''u'')) = 200"
    by (simp add: listed_server_def table_server_def user_url_def ok_def)
  have c: "body (listed_server ([] @ [Get (user_url ''u'')]) (user_url ''u'')) = Some ?data"
    by (simp add: listed_server_def table_server_def user_url_def ok_def)
  have d: "findall_orcid False (py_str ?data) = ''https://orcid.org/0000-0002-4321-2180'' # []"
    by code_simp
  from profile_link_returned[of listed_server "[]" "''u''" ?data "''https://orcid.org/0000-0002-4321-2180''" "[]"]
    a b c d
  show ?thesis by (simp add: user_url_def)
qed

text \<open>
  Claim C3 as stated, without the word boundaries, fails: a profile whose bio is the text of
  an ORCID link followed by one more digit has a substring that matches the pattern of
  the specification, and the resolver goes through both registry searches and returns
  \<open>None\<close>.
\<close>

theorem pattern_without_boundary_not_returned:
  "spec_contains_pid
     (py_str (ann_profile (JStr ''MIT'') (JStr ''https://orcid.org/0000-0002-4321-21801''))) \<and>
   search_github_user_for_orcid_robust glued_server ''u'' [] =
     (Inr JNull,
      [Get ''https://api.github.com/users/u'',
       Get ''https://api.github.com/users/u'',
       Get ''https://api.github.com/users/u/social_accounts'',
       Get ''https://api.github.com/users/u'',
       Get ''https://pub.orcid.org/v3.0/search?q=given-names:Ann+AND+family-name:Lee+AND+affiliation-org-name:MIT&rows=10'',
       Get ''https://pub.orcid.org/v3.0/search?q=given-names:Ann+AND+family-name:Lee&rows=10''])"
  by code_simp


lemma exact_search_one:
  assumes "status_code (srv tr (exact_search_url first_name last_name institution)) = 200"
    and "body (srv tr (exact_search_url first_name last_name institution)) = Some search_results"
    and "py_get search_results ''num-found'' = Inr (JInt 1)"
    and "first_result_uri search_results = Inr pid"
  shows "exact_search srv first_name last_name institution tr =
     (Inr (Some pid), tr @ [Get (exact_search_url first_name last_name institution)])"
  using assms by (simp add: exact_search_def response_json_def io_simps)

lemma exact_search_other:
  assumes "status_code (srv tr (exact_search_url first_name last_name institution)) = 200"
    and "body (srv tr (exact_search_url first_name last_name institution)) = Some search_results"
    and "py_get search_results ''num-found'' = Inr (JInt k)" and "k \<noteq> 1"
  shows "exact_search srv first_name last_name institution tr =
     (Inr None, tr @ [Get (exact_search_url first_name last_name institution)])"
  using assms by (simp add: exact_search_def response_json_def io_simps)

text \<open>
  Claim C5. For a user whose profile and social links name no ORCID iD (the scan returns
  \<open>None\<close>) and whose display name is a string, let the search with given name, family
  name and organization answer 200 with the count \<open>k\<close> under \<open>num-found\<close>. If
  \<open>k\<close> is 1 the resolver returns the \<open>uri\<close> of the first listed record and asks for
  nothing more. If \<open>k\<close> is any other number, the resolver goes on with the search without
  the organization, and returns what that search returns.
\<close>

theorem exact_match_count:
  assumes "status_code (srv tr (user_url username)) = 200"
    and "search_github_user_for_orcid srv username (tr @ [Get (user_url username)]) = (Inr None, tr2)"
    and "get_name_and_institution_from_github_api srv username tr2 =
          (Inr (Some (JStr name, institution)), tr3)"
    and "status_code (srv tr3 (exact_search_url (given_name name) (family_name name) institution)) = 200"
    and "body (srv tr3 (exact_search_url (given_name name) (family_name name) institution)) =
          Some search_results"
    and "py_get search_results ''num-found'' = Inr (JInt k)"
  shows "(k = 1 \<longrightarrow> first_result_uri search_results = Inr pid \<longrightarrow>
        search_github_user_for_orcid_robust srv username tr =
          (Inr pid, tr3 @ [Get (exact_search_url (given_name name) (family_name name) institution)])) \<and>
     (k \<noteq> 1 \<longrightarrow>
        search_github_user_for_orcid_robust srv username tr =
          broad_search srv (given_name name) (family_name name) institution
            (tr3 @ [Get (exact_search_url (given_name name) (family_name name) institution)]))"
proof (intro conjI impI)
  assume "k = 1" and "first_result_uri search_results = Inr pid"
  with assms(4,5,6) have "exact_search srv (given_name name) (family_name name) institution tr3 =
     (Inr (Some pid), tr3 @ [Get (exact_search_url (given_name name) (family_name name) institution)])"
    by (simp add: exact_search_one)
  then show "search_github_user_for_orcid_robust srv username tr =
          (Inr pid, tr3 @ [Get (exact_search_url (given_name name) (family_name name) institution)])"
    by (simp add: robust_registry[OF assms(1,2,3)] io_bind_def io_return_def)
next
  assume "k \<noteq> 1"
  with assms(4,5,6) have "exact_search srv (given_name name) (family_name name) institution tr3 =
     (Inr None, tr3 @ [Get (exact_search_url (given_name name) (family_name name) institution)])"
    by (simp add: exact_search_other)
  then show "search_github_user_for_orcid_robust srv username tr =
          broad_search srv (given_name name) (family_name name) institution
            (tr3 @ [Get (exact_search_url (given_name name) (family_name name) institution)])"
    by (simp add: robust_registry[OF assms(1,2,3)] io_bind_def)
qed

text \<open>A registry with exactly one record for the full search, and one with none.\<close>

theorem exact_match_count_witness:
  "search_github_user_for_orcid_robust exact_server ''u'' [] =
     (Inr (JStr ''https://orcid.org/0000-0002-2469-0494''),
      [Get ''https://api.github.com/users/u'',
       Get ''https://api.github.com/users/u'',
       Get ''https://api.github.com/users/u/social_accounts'',
       Get ''https://api.github.com/users/u'',
       Get ''https://pub.orcid.org/v3.0/search?q=given-names:Ann+AND+family-name:Lee+AND+affiliation-org-name:MIT&rows=10'']) \<and>
   search_github_user_for_orcid_robust (registry_server ''MIT'' ''MIT'') ''u'' [] =
     broad_search (registry_server ''MIT'' ''MIT'') ''Ann'' ''Lee'' (JStr ''MIT'')
      [Get ''https://api.github.com/users/u'',
       Get ''https://api.github.com/users/u'',
       Get ''https://api.github.com/users/u/social_accounts'',
       Get ''https://api.github.com/users/u'',
       Get ''https://pub.orcid.org/v3.0/search?q=given-names:Ann+AND+family-name:Lee+AND+affiliation-org-name:MIT&rows=10'']"
proof -
  let ?tr2 = "[Get ''https://api.github.com/users/u'', Get ''https://api.github.com/users/u'',
       Get ''https://api.github.com/users/u/social_accounts'']"
  let ?tr3 = "[Get ''https://api.github.com/users/u'', Get ''https://api.github.com/users/u'',
       Get ''https://api.github.com/users/u/social_accounts'', Get ''https://api.github.com/users/u'']"
  let ?url = "''https://pub.orcid.org/v3.0/search?q=given-names:Ann+AND+family-name:Lee+AND+affiliation-org-name:MIT&rows=10''"
  let ?one = "JObj [(''num-found'', JInt 1), (''result'', JList [candidate])]"
  let ?none = "JObj [(''num-found'', JInt 0), (''result'', JList [])]"
  let ?r = "registry_server ''MIT'' ''MIT''"
  have gn: "given_name ''Ann Lee'' = ''Ann''" and fn: "family_name ''Ann Lee'' = ''Lee''"
    by (simp_all add: given_name_def family_name_def)
  have url: "exact_search_url ''Ann'' ''Lee'' (JStr ''MIT'') = ?url"
    by (simp add: exact_search_url_def py_str_def)
  have e1: "status_code (exact_server [] (user_url ''u'')) = 200"
    by (simp add: exact_server_def table_server_def user_url_def ok_def)
  have e2: "search_github_user_for_orcid exact_server ''u'' ([] @ [Get (user_url ''u'')]) = (Inr None, ?tr2)"
    by code_simp
  have e3: "get_name_and_institution_from_github_api exact_server ''u'' ?tr2 =
      (Inr (Some (JStr ''Ann Lee'', JStr ''MIT'')), ?tr3)"
    by code_simp
  have e4: "status_code (exact_server ?tr3
      (exact_search_url (given_name ''Ann Lee'') (family_name ''Ann Lee'') (JStr ''MIT''))) = 200"
    by (simp add: gn fn url exact_server_def table_server_def ok_def)
  have e5: "body (exact_server ?tr3
      (exact_search_url (given_name ''Ann Lee'') (family_name ''Ann Lee'') (JStr ''MIT''))) = Some ?one"
    by (simp add: gn fn url exact_server_def table_server_def ok_def)
  have e6: "py_get ?one ''num-found'' = Inr (JInt 1)"
    by (simp add: py_get_def py_get_default_def)
  have e7: "first_result_uri ?one = Inr (JStr ''https://orcid.org/0000-0002-2469-0494'')"
    by code_simp
  have r1: "status_code (?r [] (user_url ''u'')) = 200"
    by (simp add: registry_server_def table_server_def user_url_def ok_def)
  have r2: "search_github_user_for_orcid ?r ''u'' ([] @ [Get (user_url ''u'')]) = (Inr None, ?tr2)"
    by code_simp
  have r3: "get_name_and_institution_from_github_api ?r ''u'' ?tr2 =
      (Inr (Some (JStr ''Ann Lee'', JStr ''MIT'')), ?tr3)"
    by code_simp
  have r4: "status_code (?r ?tr3
      (exact_search_url (given_name ''Ann Lee'') (family_name ''Ann Lee'') (JStr ''MIT''))) = 200"
    by (simp add: gn fn url registry_server_def table_server_def ok_def)
  have r5: "body (?r ?tr3
      (exact_search_url (given_name ''Ann Lee'') (family_name ''Ann Lee'') (JStr ''MIT''))) = Some ?none"
    by (simp add: gn fn url registry_server_def table_server_def ok_def)
  have r6: "py_get ?none ''num-found'' = Inr (JInt 0)"
    by (simp add: py_get_def py_get_default_def)
  from exact_match_count[OF e1 e2 e3 e4 e5 e6, of "JStr ''https://orcid.org/0000-0002-2469-0494''"] e7
  have one: "search_github_user_for_orcid_robust exact_server ''u'' [] =
     (Inr (JStr ''https://orcid.org/0000-0002-2469-0494''), ?tr3 @ [Get ?url])"
    by (simp add: gn fn url)
  from exact_match_count[OF r1 r2 r3 r4 r5 r6]
  have two: "search_github_user_for_orcid_robust ?r ''u'' [] =
     broad_search ?r ''Ann'' ''Lee'' (JStr ''MIT'') (?tr3 @ [Get ?url])"
    by (simp add: gn fn url)
  from one two show ?thesis by simp
qed

text \<open>
  When the search without the organization answers 200, reports more than 10 records and
  has a result list that can be iterated, the resolver returns \<open>None\<close> and requests
  no record of a candidate. The test of the count is in the body of the loop over the
  listed results: the warning is printed when the response lists at least one result.
\<close>

lemma too_many_candidates:
  assumes "status_code (srv tr (user_url username)) = 200"
    and "search_github_user_for_orcid srv username (tr @ [Get (user_url username)]) = (Inr None, tr2)"
    and "get_name_and_institution_from_github_api srv username tr2 =
          (Inr (Some (JStr name, institution)), tr3)"
    and "exact_search srv (given_name name) (family_name name) institution tr3 = (Inr None, tr4)"
    and "status_code (srv tr4 (broad_search_url (given_name name) (family_name name))) = 200"
    and "body (srv tr4 (broad_search_url (given_name name) (family_name name))) = Some search_results"
    and "py_get search_results ''num-found'' = Inr (JInt k)" and "10 < k"
    and "and_then (py_get search_results ''result'') py_iter = Inr results"
  shows "search_github_user_for_orcid_robust srv username tr =
     (Inr JNull,
      tr4 @ [Get (broad_search_url (given_name name) (family_name name))] @
      (if results = [] then []
       else [Print (too_many_warning (JInt k) (given_name name) (family_name name))]))"
proof -
  let ?tr5 = "tr4 @ [Get (broad_search_url (given_name name) (family_name name))]"
  have loop: "candidates_loop srv search_results (given_name name) (family_name name) institution
      results ?tr5 =
     (if results = [] then (Inr None, ?tr5)
      else (Inr (Some JNull),
            ?tr5 @ [Print (too_many_warning (JInt k) (given_name name) (family_name name))]))"
    using assms(7,8)
    by (cases results) (simp_all add: io_simps py_gt_int_def py_print_def io_bind_def)
  have "search_github_user_for_orcid_robust srv username tr =
      broad_search srv (given_name name) (family_name name) institution tr4"
    using assms(4) by (simp add: robust_registry[OF assms(1,2,3)] io_bind_def)
  also have "\<dots> = (Inr JNull, ?tr5 @ (if results = [] then []
       else [Print (too_many_warning (JInt k) (given_name name) (family_name name))]))"
    using assms(5,6,9) loop
    by (simp add: broad_search_def response_json_def io_bind_get io_bind_lift_Inr)
       (simp add: io_bind_def io_return_def)
  finally show ?thesis by simp
qed

text \<open>Eleven records reported, one listed.\<close>

lemma too_many_candidates_example:
  "search_github_user_for_orcid_robust (crowded_server [candidate]) ''u'' [] =
     (Inr JNull,
      [Get ''https://api.github.com/users/u'',
       Get ''https://api.github.com/users/u'',
       Get ''https://api.github.com/users/u/social_accounts'',
       Get ''https://api.github.com/users/u'',
       Get ''https://pub.orcid.org/v3.0/search?q=given-names:Ann+AND+family-name:Lee+AND+affiliation-org-name:MIT&rows=10'',
       Get ''https://pub.orcid.org/v3.0/search?q=given-names:Ann+AND+family-name:Lee&rows=10'',
       Print ''Warning: 11 results found for Ann Lee without affiliation. Returning None.''])"
proof -
  let ?s = "crowded_server [candidate]"
  let ?tr2 = "[Get ''https://api.github.com/users/u'', Get ''https://api.github.com/users/u'',
       Get ''https://api.github.com/users/u/social_accounts'']"
  let ?tr3 = "[Get ''https://api.github.com/users/u'', Get ''https://api.github.com/users/u'',
       Get ''https://api.github.com/users/u/social_accounts'', Get ''https://api.github.com/users/u'']"
  let ?tr4 = "[Get ''https://api.github.com/users/u'', Get ''https://api.github.com/users/u'',
       Get ''https://api.github.com/users/u/social_accounts'', Get ''https://api.github.com/users/u'',
       Get ''https://pub.orcid.org/v3.0/search?q=given-names:Ann+AND+family-name:Lee+AND+affiliation-org-name:MIT&rows=10'']"
  let ?url = "''https://pub.orcid.org/v3.0/search?q=given-names:Ann+AND+family-name:Lee&rows=10''"
  let ?many = "JObj [(''num-found'', JInt 11), (''result'', JList [candidate])]"
  have gn: "given_name ''Ann Lee'' = ''Ann''" and fn: "family_name ''Ann Lee'' = ''Lee''"
    by (simp_all add: given_name_def family_name_def)
  have url: "broad_search_url ''Ann'' ''Lee'' = ?url"
    by (simp add: broad_search_url_def)
  have h1: "status_code (?s [] (user_url ''u'')) = 200"
    by (simp add: crowded_server_def table_server_def user_url_def ok_def)
  have h2: "search_github_user_for_orcid ?s ''u'' ([] @ [Get (user_url ''u'')]) = (Inr None, ?tr2)"
    by code_simp
  have h3: "get_name_and_institution_from_github_api ?s ''u'' ?tr2 =
      (Inr (Some (JStr ''Ann Lee'', JStr ''MIT'')), ?tr3)"
    by code_simp
  have h4: "exact_search ?s (given_name ''Ann Lee'') (family_name ''Ann Lee'') (JStr ''MIT'') ?tr3 =
      (Inr None, ?tr4)"
    by code_simp
  have h5: "status_code (?s ?tr4 (broad_search_url (given_name ''Ann Lee'') (family_name ''Ann Lee''))) = 200"
    by (simp add: gn fn url crowded_server_def table_server_def ok_def)
  have h6: "body (?s ?tr4 (broad_search_url (given_name ''Ann Lee'') (family_name ''Ann Lee''))) = Some ?many"
    by (simp add: gn fn url crowded_server_def table_server_def ok_def)
  have h7: "py_get ?many ''num-found'' = Inr (JInt 11)"
    by (simp add: py_get_def py_get_default_def)
  have h8: "(10::int) < 11" by simp
  have h9: "and_then (py_get ?many ''result'') py_iter = Inr [candidate]"
    by (simp add: py_get_def py_get_default_def py_iter_def and_then_def)
  have w: "too_many_warning (JInt 11) ''Ann'' ''Lee'' =
      ''Warning: 11 results found for Ann Lee without affiliation. Returning None.''"
    by code_simp
  from too_many_candidates[OF h1 h2 h3 h4 h5 h6 h7 h8 h9] show ?thesis
    by (simp add: gn fn url w)
qed


text \<open>
  The acronym of a name that is a string: its uppercase characters, in order. An
  affiliation whose acronym is the declared organization ends the loop with a match.
\<close>

lemma upper_not_lower: "is_upper c \<Longrightarrow> \<not> is_lower c"
  by (auto simp: is_upper_def is_lower_def Let_def)

lemma upper_only_chars:
  "upper_only (map (\<lambda>c. JStr [c]) s) = Inr (map (\<lambda>c. [c]) (filter is_upper s))"
  by (induction s) (auto simp: and_then_def str_isupper_def dest: upper_not_lower)

lemma capitalized_str: "capitalized (JStr s) = Inr (filter is_upper s)"
proof -
  have "concat (map (\<lambda>c. [c]) xs) = xs" for xs :: string
    by (induction xs) simp_all
  then show ?thesis
    by (simp add: capitalized_def py_iter_def and_then_def upper_only_chars)
qed

lemma acronym_accepted:
  assumes "py_get iAffiliation ''organization'' = Inr organization"
    and "py_get organization ''name'' = Inr (JStr name)"
    and "filter is_upper name = declared"
  shows "affiliations_loop (JStr declared) (iAffiliation # rest) = Inr True"
  using assms by (simp add: and_then_def capitalized_str)

lemma dict_never_equals_str: "py_eq (JObj kvs) (JStr s) = False"
  by simp

text \<open>
  Claim C1. The claim accepts a candidate one of whose affiliations has either the acronym
  or the very name that the user declared. The code compares the declared organization
  with the acronym and then with the affiliation object itself, not with its name: a dict
  never equals a str, so a candidate employed at \<open>Indiana University\<close> is not accepted
  for a user who declared \<open>Indiana University\<close>, and the resolver returns \<open>None\<close>.
\<close>

theorem raw_affiliation_name_not_accepted:
  "search_github_user_for_orcid_robust
     (registry_server ''Indiana University'' ''Indiana University'') ''u'' [] =
     (Inr JNull,
      [Get ''https://api.github.com/users/u'',
       Get ''https://api.github.com/users/u'',
       Get ''https://api.github.com/users/u/social_accounts'',
       Get ''https://api.github.com/users/u'',
       Get ''https://pub.orcid.org/v3.0/search?q=given-names:Ann+AND+family-name:Lee+AND+affiliation-org-name:Indiana University&rows=10'',
       Get ''https://pub.orcid.org/v3.0/search?q=given-names:Ann+AND+family-name:Lee&rows=10'',
       Sleep,
       Get ''https://pub.orcid.org/v3.0/0000-0002-2469-0494''])"
  by code_simp

text \<open>The acronym is accepted: the example of the specification.\<close>

lemma acronym_example:
  "search_github_user_for_orcid_robust
     (registry_server ''MIT'' ''Massachusetts Institute of Technology'') ''u'' [] =
     (Inr (JStr ''https://orcid.org/0000-0002-2469-0494''),
      [Get ''https://api.github.com/users/u'',
       Get ''https://api.github.com/users/u'',
       Get ''https://api.github.com/users/u/social_accounts'',
       Get ''https://api.github.com/users/u'',
       Get ''https://pub.orcid.org/v3.0/search?q=given-names:Ann+AND+family-name:Lee+AND+affiliation-org-name:MIT&rows=10'',
       Get ''https://pub.orcid.org/v3.0/search?q=given-names:Ann+AND+family-name:Lee&rows=10'',
       Sleep,
       Get ''https://pub.orcid.org/v3.0/0000-0002-2469-0494''])"
  by code_simp

text \<open>
  Claim C2. The claim has the resolver return \<open>None\<close>, and never raise, once the
  profile exists. For a user without a display name the code calls \<open>split\<close> on
  \<open>None\<close> and raises \<open>AttributeError\<close>; when the profile request for the name
  answers with another status than 200, unpacking the missing pair raises
  \<open>TypeError\<close>.
\<close>

theorem resolution_raises_without_name:
  "search_github_user_for_orcid_robust nameless_server ''u'' [] =
     (Inl AttributeError,
      [Get ''https://api.github.com/users/u'',
       Get ''https://api.github.com/users/u'',
       Get ''https://api.github.com/users/u/social_accounts'',
       Get ''https://api.github.com/users/u'']) \<and>
   search_github_user_for_orcid_robust vanishing_server ''u'' [] =
     (Inl TypeError,
      [Get ''https://api.github.com/users/u'',
       Get ''https://api.github.com/users/u'',
       Get ''https://api.github.com/users/u/social_accounts'',
       Get ''https://api.github.com/users/u''])"
  by code_simp

end
